theory Spec2Isabelle
  imports Main
begin

section \<open>The pull request tree provider of \<^verbatim>\<open>src/view/prsTreeDataProvider.ts\<close>\<close>

text \<open>
  The class \<^verbatim>\<open>PullRequestsTreeDataProvider\<close> is embedded as a record of its fields and
  one function per method, each taking the provider and returning it updated. Calls
  into collaborators whose code lives in other files (tree nodes, the repositories
  manager, the settings store) are parameters: the manager is a record of the values
  its accessors return at the time of the call, the node methods and the settings are
  the fields of an environment record. Every call that leaves the class, and the
  assignments and calls the claims order against each other, are appended to a trace.
  Each method is run to completion: the interleaving of two asynchronous calls at an
  \<^verbatim>\<open>await\<close> is not modelled.
\<close>

subsection \<open>Data of the collaborators\<close>

type_synonym Remote = string

text \<open>\<^verbatim>\<open>ReposManagerState\<close> of \<^verbatim>\<open>github/folderRepositoryManager\<close>; the file compares it
  with \<^verbatim>\<open>Initializing\<close> and \<^verbatim>\<open>NeedsAuthentication\<close> only.\<close>

datatype ReposManagerState = Initializing | NeedsAuthentication | RepositoriesLoaded

datatype AuthProvider = github | githubEnterprise

text \<open>\<^verbatim>\<open>PRType\<close> of \<^verbatim>\<open>github/interface\<close>; the file compares it with \<^verbatim>\<open>All\<close> only
  (\<open>All_PRType\<close> here, \<open>All\<close> being the quantifier of HOL).\<close>

datatype PRType = Query | All_PRType | LocalPullRequest

text \<open>The members of \<^verbatim>\<open>PRCategoryActionType\<close> that the file constructs.\<close>

datatype PRCategoryActionType =
  Empty | NoRemotes | NoMatchingRemotes | ConfigureRemotes | LoginEnterprise

datatype PullRequestModel = PullRequestModel nat

datatype ReviewModel = ReviewModel nat

datatype TreeItemCheckboxState = Unchecked | Checked

datatype ContextKey = LOADING_PRS_TREE

record Repository =
  rootUri :: string
  stateRemotes :: "Remote list"  \<comment> \<open>\<^verbatim>\<open>repository.state.remotes\<close>\<close>

record FolderRepositoryManager =
  repository :: Repository
  gitHubRemotes :: "Remote list"  \<comment> \<open>what \<^verbatim>\<open>getGitHubRemotes()\<close> resolves to\<close>

record CredentialStore =
  isAuthenticated :: "AuthProvider \<Rightarrow> bool"

record RepositoriesManager =
  state :: ReposManagerState
  folderManagers :: "FolderRepositoryManager list"
  credentialStore :: CredentialStore

subsection \<open>Tree nodes\<close>

text \<open>
  A node is an object: \<open>oid\<close> is its identity, \<open>kind\<close> its class with the fields the
  provider reads (\<^verbatim>\<open>rootUri\<close> of a workspace folder node, \<^verbatim>\<open>id\<close> and \<^verbatim>\<open>type\<close> of a
  category node, \<^verbatim>\<open>type\<close> of an action node).
\<close>

datatype NodeKind =
  WorkspaceFolderNode string
| CategoryTreeNode string PRType
| PRCategoryActionNode PRCategoryActionType
| InMemFileChangeNode
| OtherNode

datatype TreeNode = TreeNode (oid: nat) (kind: NodeKind)

subsection \<open>Effects\<close>

datatype Event =
  GetChildrenCall "TreeNode option"  \<comment> \<open>entry of \<^verbatim>\<open>getChildren(element)\<close>\<close>
| NeedsRemotesCall  \<comment> \<open>entry of \<^verbatim>\<open>needsRemotes()\<close>\<close>
| SetContext ContextKey bool  \<comment> \<open>\<^verbatim>\<open>commands.setContext(key, value)\<close>\<close>
| Dispose TreeNode  \<comment> \<open>\<^verbatim>\<open>node.dispose()\<close>\<close>
| ChildrenAssigned nat  \<comment> \<open>\<^verbatim>\<open>this._children = result\<close>, with the array's address\<close>
| NodeGetChildren TreeNode  \<comment> \<open>\<^verbatim>\<open>element.getChildren()\<close>\<close>
| NodeExpandPullRequest TreeNode PullRequestModel  \<comment> \<open>\<^verbatim>\<open>child.expandPullRequest(pr)\<close>\<close>
| UpdateFromCheckboxChanged TreeNode TreeItemCheckboxState
| Fire "TreeNode option"  \<comment> \<open>\<^verbatim>\<open>this._onDidChangeTreeData.fire(node?)\<close>\<close>

datatype Disposable =
  PRStatusDecorationProvider
| FileDecorationProviderRegistration
| Command string
| TreeView
| OnDidChangeConfiguration
| OnDidChangeCheckboxState
| OnDidExpandElement
| OnDidCollapseElement
| OnDidChangeState
| OnDidChangeRepositories FolderRepositoryManager
| OnDidChangeLocalFileChanges ReviewModel
| NotificationProviderDisposable

datatype NotificationProvider = NotificationProvider CredentialStore RepositoriesManager

datatype Error = Error string

text \<open>
  What a call of a node's \<^verbatim>\<open>expandPullRequest\<close> hands back: a boolean when the method is
  synchronous, a promise when it is asynchronous, which resolves to a boolean or
  rejects with an error.
\<close>

datatype Returned = Plain bool | Resolves bool | Rejects Error

text \<open>\<^verbatim>\<open>if (value)\<close>: a promise is an object, and every object is true.\<close>

definition truthy :: "Returned \<Rightarrow> bool" where
  "truthy r = (case r of Plain b \<Rightarrow> b | Resolves b \<Rightarrow> True | Rejects e \<Rightarrow> True)"

text \<open>\<^verbatim>\<open>await value\<close>: the value itself, what the promise resolves to, or the error
  thrown when it rejects.\<close>

definition await :: "Returned \<Rightarrow> Error + bool" where
  "await r = (case r of Plain b \<Rightarrow> Inr b | Resolves b \<Rightarrow> Inr b | Rejects e \<Rightarrow> Inl e)"

text \<open>What the provider asks of code outside the file.\<close>

record Env =
  remotesSetting :: "string list option"
    \<comment> \<open>\<^verbatim>\<open>getConfiguration(PR_SETTINGS_NAMESPACE).get<string[]>(REMOTES)\<close>, \<open>None\<close> for undefined\<close>
  findEnterpriseRemotes :: "FolderRepositoryManager list \<Rightarrow> Remote list"
    \<comment> \<open>\<^verbatim>\<open>enterpriseRemotes\<close> of \<^verbatim>\<open>findDotComAndEnterpriseRemotes(folderManagers)\<close>\<close>
  getCategoryTreeNodes :: "FolderRepositoryManager \<Rightarrow> TreeNode list"
    \<comment> \<open>\<^verbatim>\<open>WorkspaceFolderNode.getCategoryTreeNodes(folderManager, ...)\<close>\<close>
  nodeGetChildren :: "TreeNode \<Rightarrow> TreeNode list"
  nodeCachedChildren :: "TreeNode \<Rightarrow> TreeNode list"
  nodeExpandPullRequest :: "TreeNode \<Rightarrow> PullRequestModel \<Rightarrow> Returned"
    \<comment> \<open>what \<^verbatim>\<open>child.expandPullRequest(pullRequest)\<close> hands back\<close>

subsection \<open>The provider\<close>

text \<open>
  \<^verbatim>\<open>_children\<close> is a reference to an array: \<open>children\<close> is the address and \<open>arrays\<close>
  the store of the root arrays, so that replacing the array and writing into it are
  different things. \<open>fresh\<close> is the next unused object identity. \<open>expandedQueriesState\<close>
  is the value of \<^verbatim>\<open>_context.workspaceState\<close> under the key \<^verbatim>\<open>EXPANDED_QUERIES_STATE\<close>,
  \<open>None\<close> when the key was never written.
\<close>

record PullRequestsTreeDataProvider =
  disposables :: "Disposable list"
  children :: nat
  arrays :: "nat \<Rightarrow> TreeNode list"
  reposManager :: "RepositoriesManager option"
  initialized :: bool
  notificationProvider :: "NotificationProvider option"
  expandedQueriesState :: "string list option"
  fresh :: nat
  trace :: "Event list"

definition emit :: "Event \<Rightarrow> PullRequestsTreeDataProvider \<Rightarrow> PullRequestsTreeDataProvider" where
  "emit e s = s\<lparr>trace := trace s @ [e]\<rparr>"

definition newNode ::
  "NodeKind \<Rightarrow> PullRequestsTreeDataProvider \<Rightarrow> TreeNode \<times> PullRequestsTreeDataProvider" where
  "newNode k s = (TreeNode (fresh s) k, s\<lparr>fresh := Suc (fresh s)\<rparr>)"

definition newArray ::
  "TreeNode list \<Rightarrow> PullRequestsTreeDataProvider \<Rightarrow> nat \<times> PullRequestsTreeDataProvider" where
  "newArray xs s = (fresh s, s\<lparr>arrays := (arrays s)(fresh s := xs), fresh := Suc (fresh s)\<rparr>)"

definition push ::
  "Disposable list \<Rightarrow> PullRequestsTreeDataProvider \<Rightarrow> PullRequestsTreeDataProvider" where
  "push ds s = s\<lparr>disposables := disposables s @ ds\<rparr>"

text \<open>The constructor, given what the workspace state holds for the expanded queries.\<close>

definition constructor :: "string list option \<Rightarrow> PullRequestsTreeDataProvider" where
  "constructor ws =
     \<lparr>disposables =
        [PRStatusDecorationProvider, FileDecorationProviderRegistration,
         Command ''pr.refreshList'', Command ''pr.loadMore'', TreeView,
         Command ''pr.configurePRViewlet'', OnDidChangeConfiguration,
         OnDidChangeCheckboxState, OnDidExpandElement, OnDidCollapseElement],
      children = 0,
      arrays = (\<lambda>_. []),
      reposManager = None,
      initialized = False,
      notificationProvider = None,
      expandedQueriesState = ws,
      fresh = 1,
      trace = []\<rparr>"

definition refresh ::
  "TreeNode option \<Rightarrow> PullRequestsTreeDataProvider \<Rightarrow> PullRequestsTreeDataProvider" where
  "refresh node s = emit (Fire node) s"

subsection \<open>\<^verbatim>\<open>needsRemotes\<close>\<close>

definition needsRemotes ::
  "Env \<Rightarrow> PullRequestsTreeDataProvider \<Rightarrow> TreeNode list \<times> PullRequestsTreeDataProvider" where
  "needsRemotes env s0 =
     (let s = emit NeedsRemotesCall s0 in
      if (case reposManager s of None \<Rightarrow> False | Some rm \<Rightarrow> state rm = NeedsAuthentication)
      then ([], s)
      else
        let (actions, s2) =
              (if remotesSetting env \<noteq> None
               then
                 let (a, s1) = newNode (PRCategoryActionNode NoMatchingRemotes) s;
                     (b, s2) = newNode (PRCategoryActionNode ConfigureRemotes) s1
                 in ([a, b], s2)
               else
                 let (a, s1) = newNode (PRCategoryActionNode NoRemotes) s
                 in ([a], s1));
            enterpriseRemotes =
              (case reposManager s of
                 None \<Rightarrow> []
               | Some rm \<Rightarrow> findEnterpriseRemotes env (folderManagers rm))
        in
          if length enterpriseRemotes > 0 \<and>
             \<not> (case reposManager s of
                  None \<Rightarrow> False
                | Some rm \<Rightarrow> isAuthenticated (credentialStore rm) githubEnterprise)
          then
            let (l, s3) = newNode (PRCategoryActionNode LoginEnterprise) s2
            in (actions @ [l], s3)
          else (actions, s2))"

subsection \<open>\<^verbatim>\<open>cachedChildren\<close> and \<^verbatim>\<open>getChildren\<close>\<close>

definition cachedChildren ::
  "Env \<Rightarrow> TreeNode option \<Rightarrow> PullRequestsTreeDataProvider \<Rightarrow> TreeNode list" where
  "cachedChildren env element s =
     (case element of
        None \<Rightarrow> arrays s (children s)
      | Some e \<Rightarrow> nodeCachedChildren env e)"

text \<open>\<^verbatim>\<open>folderManagers.map(folderManager => new WorkspaceFolderNode(...))\<close>\<close>

fun newWorkspaceFolderNodes ::
  "FolderRepositoryManager list \<Rightarrow> PullRequestsTreeDataProvider \<Rightarrow>
   TreeNode list \<times> PullRequestsTreeDataProvider" where
  "newWorkspaceFolderNodes [] s = ([], s)"
| "newWorkspaceFolderNodes (folderManager # rest) s =
     (let (n, s1) = newNode (WorkspaceFolderNode (rootUri (repository folderManager))) s;
          (ns, s2) = newWorkspaceFolderNodes rest s1
      in (n # ns, s2))"

text \<open>\<^verbatim>\<open>this._children.forEach(dispose => dispose.dispose())\<close>\<close>

definition disposeAll ::
  "TreeNode list \<Rightarrow> PullRequestsTreeDataProvider \<Rightarrow> PullRequestsTreeDataProvider" where
  "disposeAll nodes s = fold (\<lambda>n. emit (Dispose n)) nodes s"

text \<open>
  The branch \<^verbatim>\<open>if (!element)\<close>. The array that \<^verbatim>\<open>getCategoryTreeNodes\<close> returns is taken
  to be a new one, as the array that \<^verbatim>\<open>map\<close> returns is.
\<close>

definition rebuildRoot ::
  "Env \<Rightarrow> RepositoriesManager \<Rightarrow> PullRequestsTreeDataProvider \<Rightarrow>
   TreeNode list \<times> PullRequestsTreeDataProvider" where
  "rebuildRoot env rm s =
     (let s1 = (if length (arrays s (children s)) \<noteq> 0
                then disposeAll (arrays s (children s)) s else s);
          (result, s2) =
            (if length (folderManagers rm) = 1
             then (getCategoryTreeNodes env (folderManagers rm ! 0), s1)
             else newWorkspaceFolderNodes (folderManagers rm) s1);
          (a, s3) = newArray result s2
      in (result, emit (ChildrenAssigned a) (s3\<lparr>children := a\<rparr>)))"

definition getChildren ::
  "Env \<Rightarrow> TreeNode option \<Rightarrow> PullRequestsTreeDataProvider \<Rightarrow>
   TreeNode list \<times> PullRequestsTreeDataProvider" where
  "getChildren env element s0 =
     (let s = emit (GetChildrenCall element) s0 in
      case reposManager s of
        None \<Rightarrow> ([], s)
      | Some rm \<Rightarrow>
          if length (folderManagers rm) = 0 then ([], s)
          else if state rm = Initializing
          then ([], emit (SetContext LOADING_PRS_TREE True) s)
          else
            let remotes = map gitHubRemotes (folderManagers rm) in
            if length (filter (\<lambda>(index, manager). length (remotes ! index) > 0)
                         (enumerate 0 (folderManagers rm))) = 0
            then needsRemotes env s
            else
              (case element of
                 None \<Rightarrow> rebuildRoot env rm s
               | Some e \<Rightarrow>
                   if length (filter (\<lambda>manager. length (stateRemotes (repository manager)) > 0)
                                (folderManagers rm)) = 0
                   then
                     let (n, s1) = newNode (PRCategoryActionNode Empty) s
                     in ([n], s1)
                   else (nodeGetChildren env e, emit (NodeGetChildren e) s)))"

subsection \<open>\<^verbatim>\<open>expandPullRequest\<close>\<close>

text \<open>
  The \<^verbatim>\<open>for\<close> loop over the root array. For a workspace folder node the file reads what
  the call hands back (\<^verbatim>\<open>if (child.expandPullRequest(pullRequest))\<close>); for a category node
  of type All it reads the awaited value (\<^verbatim>\<open>if (await child.expandPullRequest(pullRequest))\<close>),
  and a rejection there ends the method with the error. The result is \<open>Inl\<close> of that error
  or \<open>Inr ()\<close>, with the provider.
\<close>

fun expandLoop ::
  "Env \<Rightarrow> PullRequestModel \<Rightarrow> TreeNode list \<Rightarrow> PullRequestsTreeDataProvider \<Rightarrow>
   (Error + unit) \<times> PullRequestsTreeDataProvider" where
  "expandLoop env pullRequest [] s = (Inr (), s)"
| "expandLoop env pullRequest (child # rest) s =
     (case kind child of
        WorkspaceFolderNode uri \<Rightarrow>
          if truthy (nodeExpandPullRequest env child pullRequest)
          then (Inr (), emit (NodeExpandPullRequest child pullRequest) s)
          else expandLoop env pullRequest rest (emit (NodeExpandPullRequest child pullRequest) s)
      | CategoryTreeNode ident type \<Rightarrow>
          if type = All_PRType
          then
            (case await (nodeExpandPullRequest env child pullRequest) of
               Inl e \<Rightarrow> (Inl e, emit (NodeExpandPullRequest child pullRequest) s)
             | Inr found \<Rightarrow>
                 if found
                 then (Inr (), emit (NodeExpandPullRequest child pullRequest) s)
                 else expandLoop env pullRequest rest
                        (emit (NodeExpandPullRequest child pullRequest) s))
          else expandLoop env pullRequest rest s
      | _ \<Rightarrow> expandLoop env pullRequest rest s)"

definition expandPullRequest ::
  "Env \<Rightarrow> PullRequestModel \<Rightarrow> PullRequestsTreeDataProvider \<Rightarrow>
   (Error + unit) \<times> PullRequestsTreeDataProvider" where
  "expandPullRequest env pullRequest s =
     (let s1 = (if length (arrays s (children s)) = 0
                then snd (getChildren env None s) else s)
      in expandLoop env pullRequest (arrays s1 (children s1)) s1)"

subsection \<open>\<^verbatim>\<open>initialize\<close>\<close>

definition initializeCategories ::
  "PullRequestsTreeDataProvider \<Rightarrow> PullRequestsTreeDataProvider" where
  "initializeCategories s = push [OnDidChangeConfiguration] s"

text \<open>The result is \<open>Inl\<close> of the error thrown, with the provider as the throw leaves it.\<close>

definition initialize ::
  "RepositoriesManager \<Rightarrow> ReviewModel list \<Rightarrow> CredentialStore \<Rightarrow>
   PullRequestsTreeDataProvider \<Rightarrow> (Error + unit) \<times> PullRequestsTreeDataProvider" where
  "initialize rm reviewModels credStore s =
     (if initialized s then (Inl (Error ''Tree has already been initialized!''), s)
      else
        let s1 = s\<lparr>initialized := True\<rparr>;
            s2 = s1\<lparr>reposManager := Some rm\<rparr>;
            s3 = push [OnDidChangeState] s2;
            s4 = push (map OnDidChangeRepositories (folderManagers rm)) s3;
            s5 = push (map OnDidChangeLocalFileChanges reviewModels) s4;
            s6 = s5\<lparr>notificationProvider := Some (NotificationProvider credStore rm)\<rparr>;
            s7 = push [NotificationProviderDisposable] s6;
            s8 = initializeCategories s7
        in (Inr (), refresh None s8))"

subsection \<open>The handlers of the view's events\<close>

text \<open>
  A JavaScript \<^verbatim>\<open>Set\<close> keeps its members in insertion order: it is a list without
  repetition. \<open>newSet\<close> is \<^verbatim>\<open>new Set(array)\<close>, and the list itself is
  \<^verbatim>\<open>Array.from(set.keys())\<close>.
\<close>

definition setAdd :: "string list \<Rightarrow> string \<Rightarrow> string list" where
  "setAdd xs x = (if x \<in> set xs then xs else xs @ [x])"

definition setDelete :: "string list \<Rightarrow> string \<Rightarrow> string list" where
  "setDelete xs x = filter (\<lambda>y. y \<noteq> x) xs"

definition newSet :: "string list \<Rightarrow> string list" where
  "newSet xs = fold (\<lambda>x acc. setAdd acc x) xs []"

definition updateExpandedQueries ::
  "TreeNode \<Rightarrow> bool \<Rightarrow> PullRequestsTreeDataProvider \<Rightarrow> PullRequestsTreeDataProvider" where
  "updateExpandedQueries element isExpanded s =
     (case kind element of
        CategoryTreeNode ident type \<Rightarrow>
          let expandedQueries =
                newSet (case expandedQueriesState s of None \<Rightarrow> [] | Some xs \<Rightarrow> xs)
          in s\<lparr>expandedQueriesState :=
                 Some (if isExpanded then setAdd expandedQueries ident
                       else setDelete expandedQueries ident)\<rparr>
      | _ \<Rightarrow> s)"

definition handleDidExpandElement ::
  "TreeNode \<Rightarrow> PullRequestsTreeDataProvider \<Rightarrow> PullRequestsTreeDataProvider" where
  "handleDidExpandElement element s = updateExpandedQueries element True s"

definition handleDidCollapseElement ::
  "TreeNode \<Rightarrow> PullRequestsTreeDataProvider \<Rightarrow> PullRequestsTreeDataProvider" where
  "handleDidCollapseElement element s = updateExpandedQueries element False s"

definition handleDidChangeCheckboxState ::
  "(TreeNode \<times> TreeItemCheckboxState) list \<Rightarrow> PullRequestsTreeDataProvider \<Rightarrow>
   PullRequestsTreeDataProvider" where
  "handleDidChangeCheckboxState items s =
     fold (\<lambda>checkboxUpdate.
             let node = fst checkboxUpdate; newState = snd checkboxUpdate
             in emit (UpdateFromCheckboxChanged node newState))
       items s"

subsection \<open>Notions used to state the properties\<close>

text \<open>The events a call appended, given the provider before and after it.\<close>

definition newEvents ::
  "PullRequestsTreeDataProvider \<Rightarrow> PullRequestsTreeDataProvider \<Rightarrow> Event list" where
  "newEvents s s' = drop (length (trace s)) (trace s')"

text \<open>The persisted expansion set, as \<^verbatim>\<open>workspaceState.get(EXPANDED_QUERIES_STATE, [])\<close> reads it.\<close>

definition persistedExpansion :: "PullRequestsTreeDataProvider \<Rightarrow> string set" where
  "persistedExpansion s = set (case expandedQueriesState s of None \<Rightarrow> [] | Some xs \<Rightarrow> xs)"

text \<open>
  The policy of the Remote-Readiness Gate in the words of the specification: nothing
  when authentication is needed; otherwise the two allowlist placeholders or the single
  no-remotes placeholder, followed by the enterprise login when an enterprise remote
  exists and enterprise authentication is not established.
\<close>

definition gatePolicy :: "bool \<Rightarrow> bool \<Rightarrow> bool \<Rightarrow> bool \<Rightarrow> PRCategoryActionType list" where
  "gatePolicy needsAuth allowlist enterpriseRemote enterpriseAuth =
     (if needsAuth then []
      else (if allowlist then [NoMatchingRemotes, ConfigureRemotes] else [NoRemotes]) @
           (if enterpriseRemote \<and> \<not> enterpriseAuth then [LoginEnterprise] else []))"

text \<open>The four inputs of the gate, read off the provider; a missing manager has no
  state, no enterprise remote and no authentication.\<close>

definition needsAuthentication :: "PullRequestsTreeDataProvider \<Rightarrow> bool" where
  "needsAuthentication s =
     (case reposManager s of None \<Rightarrow> False | Some rm \<Rightarrow> state rm = NeedsAuthentication)"

definition hasEnterpriseRemote :: "Env \<Rightarrow> PullRequestsTreeDataProvider \<Rightarrow> bool" where
  "hasEnterpriseRemote env s =
     (case reposManager s of
        None \<Rightarrow> False
      | Some rm \<Rightarrow> findEnterpriseRemotes env (folderManagers rm) \<noteq> [])"

definition enterpriseAuthenticated :: "PullRequestsTreeDataProvider \<Rightarrow> bool" where
  "enterpriseAuthenticated s =
     (case reposManager s of
        None \<Rightarrow> False
      | Some rm \<Rightarrow> isAuthenticated (credentialStore rm) githubEnterprise)"

text \<open>The root children that \<^verbatim>\<open>expandPullRequest\<close> delegates to, and the ones it reaches:
  those up to the first at which the loop ends.\<close>

definition delegated :: "TreeNode \<Rightarrow> bool" where
  "delegated child =
     (case kind child of
        WorkspaceFolderNode uri \<Rightarrow> True
      | CategoryTreeNode ident type \<Rightarrow> type = All_PRType
      | _ \<Rightarrow> False)"

text \<open>A node represents the pull request when its awaited answer is true.\<close>

definition represents :: "Env \<Rightarrow> PullRequestModel \<Rightarrow> TreeNode \<Rightarrow> bool" where
  "represents env pullRequest child =
     (await (nodeExpandPullRequest env child pullRequest) = Inr True)"

text \<open>The loop ends at a child: a workspace folder node whose answer is read as true, or
  another node whose awaited answer is true or an error.\<close>

definition endsAt :: "Env \<Rightarrow> PullRequestModel \<Rightarrow> TreeNode \<Rightarrow> bool" where
  "endsAt env pullRequest child =
     (case kind child of
        WorkspaceFolderNode uri \<Rightarrow> truthy (nodeExpandPullRequest env child pullRequest)
      | _ \<Rightarrow> await (nodeExpandPullRequest env child pullRequest) \<noteq> Inr False)"

fun uptoFirst :: "('a \<Rightarrow> bool) \<Rightarrow> 'a list \<Rightarrow> 'a list" where
  "uptoFirst p [] = []"
| "uptoFirst p (x # xs) = (if p x then [x] else x # uptoFirst p xs)"

text \<open>The nodes that the \<^verbatim>\<open>map\<close> over the folder managers constructs, the first with
  identity \<open>n\<close>.\<close>

fun workspaceFolderNodesFrom :: "nat \<Rightarrow> FolderRepositoryManager list \<Rightarrow> TreeNode list" where
  "workspaceFolderNodesFrom n [] = []"
| "workspaceFolderNodesFrom n (fm # rest) =
     TreeNode n (WorkspaceFolderNode (rootUri (repository fm))) #
     workspaceFolderNodesFrom (Suc n) rest"

text \<open>The root set that the branch \<^verbatim>\<open>if (!element)\<close> builds and the address it is stored at.\<close>

definition rootNodes ::
  "Env \<Rightarrow> RepositoriesManager \<Rightarrow> PullRequestsTreeDataProvider \<Rightarrow> TreeNode list" where
  "rootNodes env rm s =
     (if length (folderManagers rm) = 1 then getCategoryTreeNodes env (folderManagers rm ! 0)
      else workspaceFolderNodesFrom (fresh s) (folderManagers rm))"

definition rootAddress :: "RepositoriesManager \<Rightarrow> PullRequestsTreeDataProvider \<Rightarrow> nat" where
  "rootAddress rm s =
     (if length (folderManagers rm) = 1 then fresh s else fresh s + length (folderManagers rm))"

definition isGetChildrenCall :: "Event \<Rightarrow> bool" where
  "isGetChildrenCall e = (case e of GetChildrenCall x \<Rightarrow> True | _ \<Rightarrow> False)"

subsection \<open>Concrete inputs\<close>

definition exEnv :: Env where
  "exEnv =
     \<lparr>remotesSetting = None,
      findEnterpriseRemotes = (\<lambda>fms. []),
      getCategoryTreeNodes =
        (\<lambda>fm. [TreeNode 100 (CategoryTreeNode ''Mine'' Query),
              TreeNode 101 (CategoryTreeNode ''All'' All_PRType)]),
      nodeGetChildren = (\<lambda>n. []),
      nodeCachedChildren = (\<lambda>n. []),
      nodeExpandPullRequest = (\<lambda>n pr. Resolves False)\<rparr>"

definition exEnvEnterprise :: Env where
  "exEnvEnterprise =
     exEnv\<lparr>remotesSetting := Some [''origin''],
           findEnterpriseRemotes := (\<lambda>fms. [''ghe''])\<rparr>"

definition exFolder :: FolderRepositoryManager where
  "exFolder =
     \<lparr>repository = \<lparr>rootUri = ''file:///a'', stateRemotes = [''origin'']\<rparr>,
      gitHubRemotes = [''origin'']\<rparr>"

definition exFolderNoRemotes :: FolderRepositoryManager where
  "exFolderNoRemotes =
     \<lparr>repository = \<lparr>rootUri = ''file:///b'', stateRemotes = []\<rparr>,
      gitHubRemotes = []\<rparr>"

definition exCredentials :: CredentialStore where
  "exCredentials = \<lparr>isAuthenticated = (\<lambda>p. p = github)\<rparr>"

definition exManager ::
  "ReposManagerState \<Rightarrow> FolderRepositoryManager list \<Rightarrow> RepositoriesManager" where
  "exManager st fms = \<lparr>state = st, folderManagers = fms, credentialStore = exCredentials\<rparr>"

text \<open>A provider as \<^verbatim>\<open>initialize\<close> leaves it after construction.\<close>

definition exProvider :: "RepositoriesManager \<Rightarrow> PullRequestsTreeDataProvider" where
  "exProvider rm = snd (initialize rm [] exCredentials (constructor None))"

text \<open>A folder whose accessor reports a GitHub remote while the repository lists none.\<close>

definition exFolderGitHubOnly :: FolderRepositoryManager where
  "exFolderGitHubOnly =
     \<lparr>repository = \<lparr>rootUri = ''file:///c'', stateRemotes = []\<rparr>,
      gitHubRemotes = [''origin'']\<rparr>"

text \<open>A provider whose root set holds two workspace folder nodes.\<close>

definition exProviderTwoFolders :: PullRequestsTreeDataProvider where
  "exProviderTwoFolders =
     snd (getChildren exEnv None
            (exProvider (exManager RepositoriesLoaded [exFolder, exFolderNoRemotes])))"

text \<open>The same provider once the manager reports a single folder without remotes.\<close>

definition exProviderRemotesGone :: PullRequestsTreeDataProvider where
  "exProviderRemotesGone =
     exProviderTwoFolders
       \<lparr>reposManager := Some (exManager RepositoriesLoaded [exFolderNoRemotes])\<rparr>"

definition exPullRequest :: PullRequestModel where
  "exPullRequest = PullRequestModel 42"

text \<open>Asynchronous node methods; the pull request is in the folder \<^verbatim>\<open>file:///c\<close> only.\<close>

definition exEnvAsync :: Env where
  "exEnvAsync =
     exEnv\<lparr>nodeExpandPullRequest :=
            (\<lambda>n pr. Resolves (kind n = WorkspaceFolderNode ''file:///c''))\<rparr>"

lemmas ex_defs =
  exEnv_def exEnvEnterprise_def exFolder_def exFolderNoRemotes_def exCredentials_def
  exManager_def exProvider_def exFolderGitHubOnly_def exPullRequest_def exEnvAsync_def
  constructor_def initialize_def push_def initializeCategories_def refresh_def

section \<open>Properties\<close>

subsection \<open>Basic facts\<close>

lemma emit_fields [simp]:
  "trace (emit e s) = trace s @ [e]"
  "children (emit e s) = children s"
  "arrays (emit e s) = arrays s"
  "reposManager (emit e s) = reposManager s"
  "fresh (emit e s) = fresh s"
  "disposables (emit e s) = disposables s"
  "initialized (emit e s) = initialized s"
  "expandedQueriesState (emit e s) = expandedQueriesState s"
  "notificationProvider (emit e s) = notificationProvider s"
  by (simp_all add: emit_def)

lemma noGitHubRemotes_iff:
  "(length (filter (\<lambda>(index, manager). length (map gitHubRemotes fms ! index) > 0)
             (enumerate 0 fms)) = 0) \<longleftrightarrow> (\<forall>fm \<in> set fms. gitHubRemotes fm = [])"
proof -
  have enum: "set (enumerate 0 fms) = (\<lambda>i. (i, fms ! i)) ` {..<length fms}"
    by (auto simp: in_set_enumerate_eq image_iff)
  have "(length (filter (\<lambda>(index, manager). length (map gitHubRemotes fms ! index) > 0)
             (enumerate 0 fms)) = 0) \<longleftrightarrow>
        (\<forall>i < length fms. gitHubRemotes (fms ! i) = [])"
    using enum by (auto simp: filter_empty_conv)
  also have "\<dots> \<longleftrightarrow> (\<forall>fm \<in> set fms. gitHubRemotes fm = [])"
    by (simp add: all_set_conv_all_nth)
  finally show ?thesis .
qed

lemma noStateRemotes_iff:
  "(length (filter (\<lambda>manager. length (stateRemotes (repository manager)) > 0) fms) = 0)
     \<longleftrightarrow> (\<forall>fm \<in> set fms. stateRemotes (repository fm) = [])"
  by (auto simp: filter_empty_conv)

lemma disposeAll_eq: "disposeAll nodes s = s\<lparr>trace := trace s @ map Dispose nodes\<rparr>"
  unfolding disposeAll_def
  by (induction nodes arbitrary: s) (simp_all add: emit_def)

lemma noGitHubRemotes_simp:
  "(filter (\<lambda>(index, manager). map gitHubRemotes fms ! index \<noteq> []) (enumerate 0 fms) = [])
     \<longleftrightarrow> (\<forall>fm \<in> set fms. gitHubRemotes fm = [])"
  using noGitHubRemotes_iff [of fms] by simp

lemma noStateRemotes_simp:
  "(filter (\<lambda>manager. stateRemotes (repository manager) \<noteq> []) fms = [])
     \<longleftrightarrow> (\<forall>fm \<in> set fms. stateRemotes (repository fm) = [])"
  using noStateRemotes_iff [of fms] by simp

lemma needsRemotes_frame:
  "trace (snd (needsRemotes env s)) = trace s @ [NeedsRemotesCall]"
  "children (snd (needsRemotes env s)) = children s"
  "arrays (snd (needsRemotes env s)) = arrays s"
  "reposManager (snd (needsRemotes env s)) = reposManager s"
  by (simp_all add: needsRemotes_def newNode_def Let_def split: option.splits)

lemma needsRemotes_kinds:
  "map kind (fst (needsRemotes env s)) =
     map PRCategoryActionNode
       (gatePolicy (needsAuthentication s) (remotesSetting env \<noteq> None)
          (hasEnterpriseRemote env s) (enterpriseAuthenticated s))"
  by (simp add: needsRemotes_def newNode_def Let_def gatePolicy_def needsAuthentication_def
      hasEnterpriseRemote_def enterpriseAuthenticated_def emit_def split: option.splits)

text \<open>The two ways past the first checks of \<^verbatim>\<open>getChildren\<close>.\<close>

lemma getChildren_gate:
  assumes "reposManager s = Some rm" and "folderManagers rm \<noteq> []"
    and "state rm \<noteq> Initializing"
    and "\<forall>fm \<in> set (folderManagers rm). gitHubRemotes fm = []"
  shows "getChildren env element s = needsRemotes env (emit (GetChildrenCall element) s)"
  using assms by (simp add: getChildren_def Let_def noGitHubRemotes_simp)

lemma getChildren_past_gate:
  assumes "reposManager s = Some rm" and "folderManagers rm \<noteq> []"
    and "state rm \<noteq> Initializing"
    and "\<exists>fm \<in> set (folderManagers rm). gitHubRemotes fm \<noteq> []"
  shows "getChildren env element s =
     (case element of
        None \<Rightarrow> rebuildRoot env rm (emit (GetChildrenCall element) s)
      | Some e \<Rightarrow>
          if \<forall>fm \<in> set (folderManagers rm). stateRemotes (repository fm) = []
          then ([TreeNode (fresh s) (PRCategoryActionNode Empty)],
                (emit (GetChildrenCall element) s)\<lparr>fresh := Suc (fresh s)\<rparr>)
          else (nodeGetChildren env e,
                emit (NodeGetChildren e) (emit (GetChildrenCall element) s)))"
proof -
  have some: "(\<forall>fm \<in> set (folderManagers rm). gitHubRemotes fm = []) = False"
    using assms(4) by blast
  show ?thesis
    using assms(1-3)
    by (auto simp: some getChildren_def Let_def noGitHubRemotes_simp noStateRemotes_simp
        newNode_def split: option.splits)
qed

lemma newWorkspaceFolderNodes_eq:
  "newWorkspaceFolderNodes fms s =
     (workspaceFolderNodesFrom (fresh s) fms, s\<lparr>fresh := fresh s + length fms\<rparr>)"
  by (induction fms arbitrary: s) (simp_all add: newNode_def)

lemma workspaceFolderNodesFrom_kinds:
  "map kind (workspaceFolderNodesFrom n fms) =
     map (\<lambda>fm. WorkspaceFolderNode (rootUri (repository fm))) fms"
  by (induction fms arbitrary: n) simp_all

lemma workspaceFolderNodesFrom_oids:
  "map oid (workspaceFolderNodesFrom n fms) = [n ..< n + length fms]"
proof (induction fms arbitrary: n)
  case Nil
  show ?case by simp
next
  case (Cons fm rest)
  have "[n ..< n + length (fm # rest)] = n # [Suc n ..< Suc n + length rest]"
    using upt_conv_Cons [of n "Suc (n + length rest)"] by (simp del: upt_Suc)
  with Cons show ?case by simp
qed

text \<open>The nodes made for several folders are different objects.\<close>

lemma workspaceFolderNodesFrom_distinct: "distinct (workspaceFolderNodesFrom n fms)"
proof -
  have "distinct (map oid (workspaceFolderNodesFrom n fms))"
    by (simp add: workspaceFolderNodesFrom_oids)
  then show ?thesis by (simp add: distinct_map)
qed

lemma rebuildRoot_eq:
  "rebuildRoot env rm s =
     (rootNodes env rm s,
      s\<lparr>trace := trace s @ map Dispose (arrays s (children s)) @
                 [ChildrenAssigned (rootAddress rm s)],
        arrays := (arrays s)(rootAddress rm s := rootNodes env rm s),
        children := rootAddress rm s,
        fresh := Suc (rootAddress rm s)\<rparr>)"
proof -
  define s1 where "s1 = s\<lparr>trace := trace s @ map Dispose (arrays s (children s))\<rparr>"
  have d: "(if length (arrays s (children s)) \<noteq> 0
            then disposeAll (arrays s (children s)) s else s) = s1"
    by (simp add: disposeAll_eq s1_def)
  show ?thesis
  proof (cases "length (folderManagers rm) = 1")
    case True
    then show ?thesis
      unfolding rebuildRoot_def d
      by (simp add: Let_def newArray_def emit_def rootAddress_def rootNodes_def s1_def)
  next
    case False
    then show ?thesis
      unfolding rebuildRoot_def d
      by (simp add: newWorkspaceFolderNodes_eq Let_def newArray_def emit_def rootAddress_def
          rootNodes_def s1_def)
  qed
qed

lemma count_list_map_inj:
  "inj f \<Longrightarrow> count_list (map f xs) (f x) = count_list xs x"
  by (induction xs) (auto dest: injD)

lemma count_list_distinct: "distinct xs \<Longrightarrow> x \<in> set xs \<Longrightarrow> count_list xs x = 1"
  by (induction xs) auto

text \<open>The provider with two workspace folder nodes, computed.\<close>

lemma exProviderTwoFolders_eq:
  "exProviderTwoFolders =
     (exProvider (exManager RepositoriesLoaded [exFolder, exFolderNoRemotes]))
       \<lparr>children := 3,
        arrays := (\<lambda>_. [])(3 := [TreeNode 1 (WorkspaceFolderNode ''file:///a''),
                                TreeNode 2 (WorkspaceFolderNode ''file:///b'')]),
        fresh := 4,
        trace := [Fire None, GetChildrenCall None, ChildrenAssigned 3]\<rparr>"
  by (simp add: exProviderTwoFolders_def ex_defs getChildren_def rebuildRoot_def Let_def
      newNode_def newArray_def disposeAll_def emit_def enumerate_eq_zip eval_nat_numeral)

subsection \<open>No folder managers\<close>

text \<open>
  C7. When no repositories manager is set, or the manager has no folder manager,
  \<^verbatim>\<open>getChildren\<close> returns the empty sequence for any element, the root request
  included: the call is the only event, so \<^verbatim>\<open>needsRemotes\<close> is not entered and no
  placeholder node is made.
\<close>

theorem getChildren_without_folder_managers:
  assumes "case reposManager s of None \<Rightarrow> True | Some rm \<Rightarrow> folderManagers rm = []"
  shows "getChildren env element s = ([], s\<lparr>trace := trace s @ [GetChildrenCall element]\<rparr>) \<and>
         NeedsRemotesCall \<notin> set (newEvents s (snd (getChildren env element s)))"
  using assms by (simp add: getChildren_def emit_def newEvents_def split: option.splits)

theorem getChildren_without_folder_managers_witness:
  "getChildren exEnv None (constructor None) =
     ([], (constructor None)\<lparr>trace := [GetChildrenCall None]\<rparr>) \<and>
   fst (getChildren exEnv (Some (TreeNode 7 OtherNode))
          (exProvider (exManager RepositoriesLoaded []))) = []"
  using getChildren_without_folder_managers [of "constructor None" exEnv None]
    getChildren_without_folder_managers
      [of "exProvider (exManager RepositoriesLoaded [])" exEnv "Some (TreeNode 7 OtherNode)"]
  by (simp add: ex_defs emit_def)

subsection \<open>The manager is initializing\<close>

text \<open>
  C6. When the manager reports \<^verbatim>\<open>Initializing\<close> and there is at least one folder
  manager, \<^verbatim>\<open>getChildren\<close> returns the empty sequence and sets the loading context
  flag. Nothing is assumed of the GitHub remotes: the check comes before the one for
  zero GitHub remotes, and \<^verbatim>\<open>needsRemotes\<close> is not entered.
\<close>

theorem getChildren_initializing:
  assumes "reposManager s = Some rm" and "folderManagers rm \<noteq> []"
    and "state rm = Initializing"
  shows "getChildren env element s =
           ([], s\<lparr>trace := trace s @
                   [GetChildrenCall element, SetContext LOADING_PRS_TREE True]\<rparr>) \<and>
         NeedsRemotesCall \<notin> set (newEvents s (snd (getChildren env element s)))"
  using assms by (simp add: getChildren_def emit_def newEvents_def)

theorem getChildren_initializing_witness:
  "map gitHubRemotes (folderManagers (exManager Initializing [exFolderNoRemotes])) = [ [] ] \<and>
   fst (getChildren exEnv None (exProvider (exManager Initializing [exFolderNoRemotes]))) = [] \<and>
   trace (snd (getChildren exEnv None (exProvider (exManager Initializing [exFolderNoRemotes]))))
     = [Fire None, GetChildrenCall None, SetContext LOADING_PRS_TREE True]"
  using getChildren_initializing
    [of "exProvider (exManager Initializing [exFolderNoRemotes])"
        "exManager Initializing [exFolderNoRemotes]" exEnv None]
  by (simp add: ex_defs emit_def)

subsection \<open>The Remote-Readiness Gate\<close>

text \<open>
  C2. The kinds of the nodes that \<^verbatim>\<open>needsRemotes\<close> returns are the list of the
  specification's policy: nothing when the manager needs authentication; otherwise
  NoMatchingRemotes and ConfigureRemotes when the remotes setting is present and
  NoRemotes when it is not, followed by LoginEnterprise when an enterprise remote exists
  and enterprise authentication is not established. \<^verbatim>\<open>getChildren\<close> returns that list
  whenever there are folder managers, the manager is not initializing and no folder
  manager has a GitHub remote.
\<close>

theorem needsRemotes_policy:
  "map kind (fst (needsRemotes env s)) =
     map PRCategoryActionNode
       (gatePolicy (needsAuthentication s) (remotesSetting env \<noteq> None)
          (hasEnterpriseRemote env s) (enterpriseAuthenticated s)) \<and>
   (\<forall>rm. reposManager s = Some rm \<and> folderManagers rm \<noteq> [] \<and> state rm \<noteq> Initializing \<and>
      (\<forall>fm \<in> set (folderManagers rm). gitHubRemotes fm = []) \<longrightarrow>
      map kind (fst (getChildren env element s)) =
        map PRCategoryActionNode
          (gatePolicy (needsAuthentication s) (remotesSetting env \<noteq> None)
             (hasEnterpriseRemote env s) (enterpriseAuthenticated s)))"
proof -
  have same:
    "needsAuthentication (emit e s) = needsAuthentication s"
    "hasEnterpriseRemote env (emit e s) = hasEnterpriseRemote env s"
    "enterpriseAuthenticated (emit e s) = enterpriseAuthenticated s" for e
    by (simp_all add: needsAuthentication_def hasEnterpriseRemote_def enterpriseAuthenticated_def)
  show ?thesis
    by (auto simp: getChildren_gate needsRemotes_kinds same simp del: map_map)
qed

theorem needsRemotes_policy_witness:
  "map kind (fst (getChildren exEnvEnterprise None
      (exProvider (exManager RepositoriesLoaded [exFolderNoRemotes])))) =
     [PRCategoryActionNode NoMatchingRemotes, PRCategoryActionNode ConfigureRemotes,
      PRCategoryActionNode LoginEnterprise] \<and>
   map kind (fst (getChildren exEnv None
      (exProvider (exManager RepositoriesLoaded [exFolderNoRemotes])))) =
     [PRCategoryActionNode NoRemotes] \<and>
   map kind (fst (needsRemotes exEnvEnterprise
      (exProvider (exManager NeedsAuthentication [exFolderNoRemotes])))) = []"
  using needsRemotes_policy
      [of exEnvEnterprise "exProvider (exManager RepositoriesLoaded [exFolderNoRemotes])" None]
    needsRemotes_policy
      [of exEnv "exProvider (exManager RepositoriesLoaded [exFolderNoRemotes])" None]
    needsRemotes_policy
      [of exEnvEnterprise "exProvider (exManager NeedsAuthentication [exFolderNoRemotes])" None]
  by (simp add: ex_defs emit_def gatePolicy_def needsAuthentication_def
      hasEnterpriseRemote_def enterpriseAuthenticated_def)

subsection \<open>The placeholder path leaves the root set alone\<close>

text \<open>
  C9. When a root call of \<^verbatim>\<open>getChildren\<close> takes the path of zero GitHub remotes, the
  stored root set is neither disposed nor replaced: the reference and the arrays are
  unchanged, the call and the entry of \<^verbatim>\<open>needsRemotes\<close> are the only events, and
  \<^verbatim>\<open>cachedChildren\<close> with no element returns afterwards what it returned before.
\<close>

theorem getChildren_gate_keeps_root:
  assumes "reposManager s = Some rm" and "folderManagers rm \<noteq> []"
    and "state rm \<noteq> Initializing"
    and "\<forall>fm \<in> set (folderManagers rm). gitHubRemotes fm = []"
  shows "children (snd (getChildren env None s)) = children s \<and>
         arrays (snd (getChildren env None s)) = arrays s \<and>
         newEvents s (snd (getChildren env None s)) = [GetChildrenCall None, NeedsRemotesCall] \<and>
         cachedChildren env None (snd (getChildren env None s)) = cachedChildren env None s"
  using assms
  by (simp add: getChildren_gate needsRemotes_frame cachedChildren_def newEvents_def)

theorem getChildren_gate_keeps_root_witness:
  "map kind (fst (getChildren exEnv None exProviderRemotesGone)) =
     [PRCategoryActionNode NoRemotes] \<and>
   cachedChildren exEnv None (snd (getChildren exEnv None exProviderRemotesGone)) =
     [TreeNode 1 (WorkspaceFolderNode ''file:///a''),
      TreeNode 2 (WorkspaceFolderNode ''file:///b'')] \<and>
   trace (snd (getChildren exEnv None exProviderRemotesGone)) =
     [Fire None, GetChildrenCall None, ChildrenAssigned 3, GetChildrenCall None,
      NeedsRemotesCall]"
  using getChildren_gate_keeps_root
    [of exProviderRemotesGone "exManager RepositoriesLoaded [exFolderNoRemotes]" exEnv]
  by (simp add: exProviderRemotesGone_def exProviderTwoFolders_eq ex_defs getChildren_def
      needsRemotes_def Let_def newNode_def emit_def cachedChildren_def newEvents_def)

subsection \<open>The Empty placeholder\<close>

text \<open>
  C3, as stated: called with no element while every folder repository has zero
  native remotes, \<^verbatim>\<open>getChildren\<close> returns a single node of kind Empty. It does not. With
  one folder that has no remote of either sort the root call returns the NoRemotes
  placeholder of the gate; with a folder whose GitHub remotes are reported while its
  repository lists none, the root call returns the category nodes.
\<close>

theorem getChildren_root_empty_placeholder_counterexample:
  "map (\<lambda>fm. stateRemotes (repository fm))
     (folderManagers (exManager RepositoriesLoaded [exFolderNoRemotes])) = [ [] ] \<and>
   map kind (fst (getChildren exEnv None
      (exProvider (exManager RepositoriesLoaded [exFolderNoRemotes])))) =
     [PRCategoryActionNode NoRemotes] \<and>
   map kind (fst (getChildren exEnv None
      (exProvider (exManager RepositoriesLoaded [exFolderNoRemotes])))) \<noteq>
     [PRCategoryActionNode Empty] \<and>
   map (\<lambda>fm. stateRemotes (repository fm))
     (folderManagers (exManager RepositoriesLoaded [exFolderGitHubOnly])) = [ [] ] \<and>
   map kind (fst (getChildren exEnv None
      (exProvider (exManager RepositoriesLoaded [exFolderGitHubOnly])))) =
     [CategoryTreeNode ''Mine'' Query, CategoryTreeNode ''All'' All_PRType]"
  by (simp add: ex_defs getChildren_def needsRemotes_def rebuildRoot_def Let_def newNode_def
      newArray_def emit_def enumerate_eq_zip)

text \<open>
  C3, amended: called with an element, when there are folder managers, the manager is
  not initializing and some folder manager has a GitHub remote, while every folder
  repository has zero native remotes, \<^verbatim>\<open>getChildren\<close> returns a single new node of kind
  Empty. The call is its only event: the element's own \<^verbatim>\<open>getChildren\<close> is not called
  and the root set is not touched.
\<close>

theorem getChildren_empty_placeholder:
  assumes "reposManager s = Some rm" and "folderManagers rm \<noteq> []"
    and "state rm \<noteq> Initializing"
    and "\<exists>fm \<in> set (folderManagers rm). gitHubRemotes fm \<noteq> []"
    and "\<forall>fm \<in> set (folderManagers rm). stateRemotes (repository fm) = []"
  shows "getChildren env (Some e) s =
           ([TreeNode (fresh s) (PRCategoryActionNode Empty)],
            s\<lparr>trace := trace s @ [GetChildrenCall (Some e)], fresh := Suc (fresh s)\<rparr>)"
  using assms(5)
  by (simp add: getChildren_past_gate [OF assms(1-4)] emit_def)

theorem getChildren_empty_placeholder_witness:
  "fst (getChildren exEnv (Some (TreeNode 100 (CategoryTreeNode ''Mine'' Query)))
      (exProvider (exManager RepositoriesLoaded [exFolderGitHubOnly]))) =
     [TreeNode 1 (PRCategoryActionNode Empty)] \<and>
   trace (snd (getChildren exEnv (Some (TreeNode 100 (CategoryTreeNode ''Mine'' Query)))
      (exProvider (exManager RepositoriesLoaded [exFolderGitHubOnly])))) =
     [Fire None, GetChildrenCall (Some (TreeNode 100 (CategoryTreeNode ''Mine'' Query)))]"
  using getChildren_empty_placeholder
    [of "exProvider (exManager RepositoriesLoaded [exFolderGitHubOnly])"
        "exManager RepositoriesLoaded [exFolderGitHubOnly]" exEnv
        "TreeNode 100 (CategoryTreeNode ''Mine'' Query)"]
  by (simp add: ex_defs)

subsection \<open>The root array is an allocated one\<close>

text \<open>
  The address in \<^verbatim>\<open>_children\<close> is below the next unused identity: this holds of the
  constructed provider and every method keeps it, so a newly allocated array is never
  the stored one.
\<close>

lemma constructor_allocated: "children (constructor ws) < fresh (constructor ws)"
  by (simp add: constructor_def)

lemma needsRemotes_fresh: "fresh s \<le> fresh (snd (needsRemotes env s))"
  by (simp add: needsRemotes_def newNode_def Let_def split: option.splits)

lemma getChildren_allocated:
  assumes "children s < fresh s"
  shows "children (snd (getChildren env element s)) < fresh (snd (getChildren env element s))"
proof (cases "reposManager s")
  case None
  with assms show ?thesis
    by (simp add: getChildren_def Let_def)
next
  case (Some rm)
  show ?thesis
  proof (cases "folderManagers rm = [] \<or> state rm = Initializing")
    case True
    with Some assms show ?thesis
      by (auto simp: getChildren_def Let_def)
  next
    case False
    show ?thesis
    proof (cases "\<forall>fm \<in> set (folderManagers rm). gitHubRemotes fm = []")
      case True
      have "children s < fresh (snd (needsRemotes env (emit (GetChildrenCall element) s)))"
        using assms needsRemotes_fresh [of "emit (GetChildrenCall element) s" env] by simp
      with Some False True show ?thesis
        by (simp add: getChildren_gate needsRemotes_frame)
    next
      case False
      with Some \<open>\<not> (folderManagers rm = [] \<or> state rm = Initializing)\<close>
      have "getChildren env element s =
         (case element of
            None \<Rightarrow> rebuildRoot env rm (emit (GetChildrenCall element) s)
          | Some e \<Rightarrow>
              if \<forall>fm \<in> set (folderManagers rm). stateRemotes (repository fm) = []
              then ([TreeNode (fresh s) (PRCategoryActionNode Empty)],
                    (emit (GetChildrenCall element) s)\<lparr>fresh := Suc (fresh s)\<rparr>)
              else (nodeGetChildren env e,
                    emit (NodeGetChildren e) (emit (GetChildrenCall element) s)))"
        by (simp add: getChildren_past_gate)
      with assms show ?thesis
        by (simp add: rebuildRoot_eq split: option.splits)
    qed
  qed
qed

lemma initialize_allocated:
  "children s < fresh s \<Longrightarrow>
   children (snd (initialize rm reviewModels credStore s)) <
     fresh (snd (initialize rm reviewModels credStore s))"
  by (simp add: initialize_def Let_def refresh_def initializeCategories_def push_def)

subsection \<open>Rebuilding the root set\<close>

text \<open>
  C1. A root call of \<^verbatim>\<open>getChildren\<close> that reaches the reconstruction branch (folder
  managers configured, manager not initializing, some folder with GitHub remotes)
  appends, after the call itself, one dispose event for each entry of the stored root
  array, in order, and then the assignment of \<^verbatim>\<open>_children\<close>: every node is disposed as
  often as it occurs in the old array, exactly once when the array has no repetition,
  and before the new root set is stored. The new root set is what is returned; it lives
  at a new address, and the old array still holds what it held.
\<close>

theorem getChildren_root_rebuild:
  assumes "reposManager s = Some rm" and "folderManagers rm \<noteq> []"
    and "state rm \<noteq> Initializing"
    and "\<exists>fm \<in> set (folderManagers rm). gitHubRemotes fm \<noteq> []"
    and "children s < fresh s"
  shows
    "(let old = arrays s (children s);
          result = fst (getChildren env None s);
          s' = snd (getChildren env None s)
      in newEvents s s' =
           GetChildrenCall None # map Dispose old @ [ChildrenAssigned (children s')] \<and>
         (\<forall>n. count_list (newEvents s s') (Dispose n) = count_list old n) \<and>
         (distinct old \<longrightarrow> (\<forall>n \<in> set old. count_list (newEvents s s') (Dispose n) = 1)) \<and>
         arrays s' (children s') = result \<and>
         children s' \<noteq> children s \<and>
         arrays s' (children s) = old \<and>
         children s' < fresh s')"
proof -
  define s0 where "s0 = emit (GetChildrenCall None) s"
  have g: "getChildren env None s = rebuildRoot env rm s0"
    by (simp add: getChildren_past_gate [OF assms(1-4)] s0_def)
  have a: "children s < rootAddress rm s0"
    using assms(5) by (simp add: rootAddress_def s0_def)
  have ev: "newEvents s (snd (getChildren env None s)) =
      GetChildrenCall None # map Dispose (arrays s (children s)) @
        [ChildrenAssigned (rootAddress rm s0)]"
    by (simp add: g rebuildRoot_eq newEvents_def s0_def)
  have cnt: "count_list (newEvents s (snd (getChildren env None s))) (Dispose n) =
      count_list (arrays s (children s)) n" for n
    by (simp add: ev count_list_map_inj inj_def)
  show ?thesis
    unfolding Let_def
    using a cnt ev by (simp add: g rebuildRoot_eq s0_def count_list_distinct)
qed

theorem getChildren_root_rebuild_witness:
  "newEvents exProviderTwoFolders (snd (getChildren exEnv None exProviderTwoFolders)) =
     [GetChildrenCall None,
      Dispose (TreeNode 1 (WorkspaceFolderNode ''file:///a'')),
      Dispose (TreeNode 2 (WorkspaceFolderNode ''file:///b'')),
      ChildrenAssigned 6] \<and>
   count_list (newEvents exProviderTwoFolders (snd (getChildren exEnv None exProviderTwoFolders)))
     (Dispose (TreeNode 2 (WorkspaceFolderNode ''file:///b''))) = 1 \<and>
   children (snd (getChildren exEnv None exProviderTwoFolders)) = 6 \<and>
   arrays (snd (getChildren exEnv None exProviderTwoFolders)) 6 =
     [TreeNode 4 (WorkspaceFolderNode ''file:///a''),
      TreeNode 5 (WorkspaceFolderNode ''file:///b'')] \<and>
   arrays (snd (getChildren exEnv None exProviderTwoFolders)) 3 =
     [TreeNode 1 (WorkspaceFolderNode ''file:///a''),
      TreeNode 2 (WorkspaceFolderNode ''file:///b'')]"
  using getChildren_root_rebuild
    [of exProviderTwoFolders "exManager RepositoriesLoaded [exFolder, exFolderNoRemotes]" exEnv]
  by (simp add: exProviderTwoFolders_eq ex_defs getChildren_def rebuildRoot_def Let_def
      newNode_def newArray_def disposeAll_def emit_def enumerate_eq_zip newEvents_def)

subsection \<open>Expanding a pull request\<close>

lemma expandLoop_snd:
  "snd (expandLoop env pr xs s) =
     s\<lparr>trace := trace s @
        map (\<lambda>c. NodeExpandPullRequest c pr)
          (uptoFirst (endsAt env pr) (filter delegated xs))\<rparr>"
proof (induction xs arbitrary: s)
  case Nil
  show ?case by simp
next
  case (Cons child rest)
  show ?case
    by (cases "kind child")
      (simp_all add: Cons delegated_def endsAt_def emit_def split: sum.splits)
qed

text \<open>The method ends with an error only when an awaited answer is one.\<close>

lemma expandLoop_fst:
  "(\<forall>c \<in> set xs. \<forall>e. await (nodeExpandPullRequest env c pr) \<noteq> Inl e) \<Longrightarrow>
   fst (expandLoop env pr xs s) = Inr ()"
proof (induction xs arbitrary: s)
  case Nil
  show ?case by simp
next
  case (Cons child rest)
  then show ?case
    by (cases "kind child") (auto split: sum.splits)
qed

lemma uptoFirst_no_match: "(\<forall>x \<in> set xs. \<not> p x) \<Longrightarrow> uptoFirst p xs = xs"
  by (induction xs) simp_all

lemma uptoFirst_butlast: "x \<in> set (butlast (uptoFirst p xs)) \<Longrightarrow> \<not> p x"
  by (induction xs) (auto split: if_splits)

text \<open>A root call of \<^verbatim>\<open>getChildren\<close> is entered once, whatever branch it takes.\<close>

lemma getChildren_root_trace:
  "\<exists>rest. trace (snd (getChildren env None s)) = trace s @ GetChildrenCall None # rest \<and>
          filter isGetChildrenCall rest = []"
proof (cases "reposManager s")
  case None
  then show ?thesis
    by (simp add: getChildren_def Let_def)
next
  case (Some rm)
  show ?thesis
  proof (cases "folderManagers rm = [] \<or> state rm = Initializing")
    case True
    with Some show ?thesis
      by (auto simp: getChildren_def Let_def isGetChildrenCall_def)
  next
    case False
    show ?thesis
    proof (cases "\<forall>fm \<in> set (folderManagers rm). gitHubRemotes fm = []")
      case True
      with Some False show ?thesis
        by (simp add: getChildren_gate needsRemotes_frame isGetChildrenCall_def)
    next
      case False
      with Some \<open>\<not> (folderManagers rm = [] \<or> state rm = Initializing)\<close>
      have "getChildren env None s = rebuildRoot env rm (emit (GetChildrenCall None) s)"
        by (simp add: getChildren_past_gate)
      then show ?thesis
        by (simp add: rebuildRoot_eq isGetChildrenCall_def)
    qed
  qed
qed

lemma expandPullRequest_allocated:
  assumes "children s < fresh s"
  shows "children (snd (expandPullRequest env pr s)) < fresh (snd (expandPullRequest env pr s))"
  using assms getChildren_allocated [OF assms, of env None]
  by (simp add: expandPullRequest_def Let_def expandLoop_snd)

text \<open>
  What holds of \<^verbatim>\<open>expandPullRequest\<close> on an empty root array for every environment: one
  root call of \<^verbatim>\<open>getChildren\<close>, which is the first event and the only entry of
  \<^verbatim>\<open>getChildren\<close>; then the delegated children of the root set then stored are asked in
  order, up to the first at which the loop ends; and the method returns without an
  error when no awaited answer is one.
\<close>

lemma expandPullRequest_empty_root_events:
  assumes "arrays s (children s) = []"
  shows
    "(let s1 = snd (getChildren env None s);
          roots = arrays s1 (children s1);
          reached = uptoFirst (endsAt env pr) (filter delegated roots);
          s' = snd (expandPullRequest env pr s)
      in s' = s1\<lparr>trace := trace s1 @ map (\<lambda>c. NodeExpandPullRequest c pr) reached\<rparr> \<and>
         newEvents s s' = newEvents s s1 @ map (\<lambda>c. NodeExpandPullRequest c pr) reached \<and>
         hd (newEvents s s1) = GetChildrenCall None \<and>
         filter isGetChildrenCall (newEvents s s') = [GetChildrenCall None] \<and>
         (\<forall>c \<in> set (butlast reached). \<not> endsAt env pr c) \<and>
         ((\<forall>c \<in> set roots. \<forall>e. await (nodeExpandPullRequest env c pr) \<noteq> Inl e) \<longrightarrow>
            fst (expandPullRequest env pr s) = Inr ()))"
proof -
  define s1 where "s1 = snd (getChildren env None s)"
  define reached where
    "reached = uptoFirst (endsAt env pr) (filter delegated (arrays s1 (children s1)))"
  obtain rest where tr1: "trace s1 = trace s @ GetChildrenCall None # rest"
    and rest2: "filter isGetChildrenCall rest = []"
    using getChildren_root_trace [of env s] unfolding s1_def by blast
  have rest: "newEvents s s1 = GetChildrenCall None # rest"
    by (simp add: newEvents_def tr1)
  have e: "snd (expandPullRequest env pr s) =
      s1\<lparr>trace := trace s1 @ map (\<lambda>c. NodeExpandPullRequest c pr) reached\<rparr>"
    using assms by (simp add: expandPullRequest_def Let_def expandLoop_snd s1_def reached_def)
  have n: "newEvents s (snd (expandPullRequest env pr s)) =
      newEvents s s1 @ map (\<lambda>c. NodeExpandPullRequest c pr) reached"
    unfolding e by (simp add: newEvents_def tr1)
  have f: "filter isGetChildrenCall (map (\<lambda>c. NodeExpandPullRequest c pr) reached) = []"
    by (simp add: filter_empty_conv isGetChildrenCall_def)
  have c: "filter isGetChildrenCall (newEvents s (snd (expandPullRequest env pr s))) =
      [GetChildrenCall None]"
    unfolding n by (simp add: rest rest2 f isGetChildrenCall_def)
  have b: "\<forall>c \<in> set (butlast reached). \<not> endsAt env pr c"
    unfolding reached_def using uptoFirst_butlast by fast
  have a: "(\<forall>c \<in> set (arrays s1 (children s1)).
        \<forall>e. await (nodeExpandPullRequest env c pr) \<noteq> Inl e) \<longrightarrow>
      fst (expandPullRequest env pr s) = Inr ()"
    using assms by (simp add: expandPullRequest_def Let_def expandLoop_fst s1_def)
  show ?thesis
    unfolding Let_def s1_def [symmetric] reached_def [symmetric]
    using e n c b a rest by simp
qed

text \<open>
  C8. With an empty root array \<^verbatim>\<open>expandPullRequest\<close> is to make one root fetch and then
  walk the root children in order, into the workspace folder nodes or the category node
  of type All, stopping at the first match. The file does so for a category node, whose
  answer it awaits, and not for a workspace folder node, whose answer it reads without
  \<^verbatim>\<open>await\<close>: a promise is read as true whatever it resolves to. Here the root set is not
  fetched yet, there are two folders, the pull request is in the second, and the node
  methods are asynchronous. The call fetches the root set once, asks the first folder,
  which does not represent the pull request, and returns: the second folder, which
  does, is never asked.
\<close>

theorem expandPullRequest_unawaited_folder:
  "arrays (exProvider (exManager RepositoriesLoaded [exFolder, exFolderGitHubOnly]))
     (children (exProvider (exManager RepositoriesLoaded [exFolder, exFolderGitHubOnly]))) = [] \<and>
   fst (getChildren exEnvAsync None
          (exProvider (exManager RepositoriesLoaded [exFolder, exFolderGitHubOnly]))) =
     [TreeNode 1 (WorkspaceFolderNode ''file:///a''),
      TreeNode 2 (WorkspaceFolderNode ''file:///c'')] \<and>
   \<not> represents exEnvAsync exPullRequest (TreeNode 1 (WorkspaceFolderNode ''file:///a'')) \<and>
   represents exEnvAsync exPullRequest (TreeNode 2 (WorkspaceFolderNode ''file:///c'')) \<and>
   fst (expandPullRequest exEnvAsync exPullRequest
          (exProvider (exManager RepositoriesLoaded [exFolder, exFolderGitHubOnly]))) = Inr () \<and>
   trace (snd (expandPullRequest exEnvAsync exPullRequest
          (exProvider (exManager RepositoriesLoaded [exFolder, exFolderGitHubOnly])))) =
     [Fire None, GetChildrenCall None, ChildrenAssigned 3,
      NodeExpandPullRequest (TreeNode 1 (WorkspaceFolderNode ''file:///a''))
        (PullRequestModel 42)]"
  by (simp add: ex_defs expandPullRequest_def getChildren_def rebuildRoot_def Let_def
      newNode_def newArray_def disposeAll_def emit_def enumerate_eq_zip represents_def
      await_def truthy_def)

subsection \<open>Checkbox changes\<close>

text \<open>
  C10. For every batch of checkbox changes the handler calls
  \<^verbatim>\<open>updateFromCheckboxChanged(newState)\<close> on each listed node, in the order of the
  batch, and does nothing else: the provider is unchanged but for these events, and the
  change emitter is not fired.
\<close>

theorem handleDidChangeCheckboxState_events:
  "handleDidChangeCheckboxState items s =
     s\<lparr>trace := trace s @
        map (\<lambda>checkboxUpdate.
               UpdateFromCheckboxChanged (fst checkboxUpdate) (snd checkboxUpdate)) items\<rparr> \<and>
   filter (\<lambda>e. case e of Fire node \<Rightarrow> True | _ \<Rightarrow> False)
     (newEvents s (handleDidChangeCheckboxState items s)) = []"
proof -
  have h: "handleDidChangeCheckboxState items s =
     s\<lparr>trace := trace s @
        map (\<lambda>checkboxUpdate.
               UpdateFromCheckboxChanged (fst checkboxUpdate) (snd checkboxUpdate)) items\<rparr>"
    unfolding handleDidChangeCheckboxState_def
    by (induction items arbitrary: s) (simp_all add: emit_def Let_def)
  show ?thesis
    unfolding h by (simp add: newEvents_def filter_empty_conv)
qed

theorem handleDidChangeCheckboxState_events_witness:
  "trace (handleDidChangeCheckboxState
            [(TreeNode 8 InMemFileChangeNode, Checked), (TreeNode 9 InMemFileChangeNode, Unchecked)]
            (constructor None)) =
     [UpdateFromCheckboxChanged (TreeNode 8 InMemFileChangeNode) Checked,
      UpdateFromCheckboxChanged (TreeNode 9 InMemFileChangeNode) Unchecked]"
  using handleDidChangeCheckboxState_events
    [of "[(TreeNode 8 InMemFileChangeNode, Checked), (TreeNode 9 InMemFileChangeNode, Unchecked)]"
        "constructor None"]
  by (simp add: constructor_def)

subsection \<open>Initializing twice\<close>

lemma initialize_when_initialized:
  "initialized s \<Longrightarrow>
   initialize rm reviewModels credStore s =
     (Inl (Error ''Tree has already been initialized!''), s)"
  by (simp add: initialize_def)

lemma initialize_success:
  "initialize rm reviewModels credStore s = (Inr (), s1) \<Longrightarrow> initialized s1"
  by (auto simp: initialize_def Let_def refresh_def initializeCategories_def push_def emit_def
      split: if_splits)

text \<open>
  C4. After a call of \<^verbatim>\<open>initialize\<close> that succeeded, a second call, with any
  arguments, throws the error, and the provider it leaves is the provider it found:
  subscriptions, manager and root set are as they were.
\<close>

theorem initialize_twice:
  assumes "initialize rm reviewModels credStore s = (Inr (), s1)"
  shows "initialize rm' reviewModels' credStore' s1 =
           (Inl (Error ''Tree has already been initialized!''), s1)"
  using assms initialize_success initialize_when_initialized by blast

theorem initialize_twice_witness:
  "fst (initialize (exManager RepositoriesLoaded [exFolder]) [] exCredentials (constructor None))
     = Inr () \<and>
   initialize (exManager Initializing []) [ReviewModel 1] exCredentials
     (exProvider (exManager RepositoriesLoaded [exFolder])) =
     (Inl (Error ''Tree has already been initialized!''),
      exProvider (exManager RepositoriesLoaded [exFolder]))"
proof -
  have first: "initialize (exManager RepositoriesLoaded [exFolder]) [] exCredentials
      (constructor None) = (Inr (), exProvider (exManager RepositoriesLoaded [exFolder]))"
    by (simp add: exProvider_def initialize_def constructor_def Let_def)
  show ?thesis
    using initialize_twice [OF first] by (simp add: first)
qed

subsection \<open>The persisted expansion set\<close>

lemma fold_setAdd_set: "set (fold (\<lambda>x acc. setAdd acc x) xs acc) = set acc \<union> set xs"
  by (induction xs arbitrary: acc) (auto simp: setAdd_def)

lemma fold_setAdd_distinct:
  "distinct acc \<Longrightarrow> distinct (fold (\<lambda>x acc. setAdd acc x) xs acc)"
  by (induction xs arbitrary: acc) (auto simp: setAdd_def)

lemma fold_setAdd_same:
  "distinct (acc @ xs) \<Longrightarrow> fold (\<lambda>x acc. setAdd acc x) xs acc = acc @ xs"
  by (induction xs arbitrary: acc) (auto simp: setAdd_def)

lemma newSet_set [simp]: "set (newSet xs) = set xs"
  by (simp add: newSet_def fold_setAdd_set)

lemma newSet_distinct [simp]: "distinct (newSet xs)"
  by (simp add: newSet_def fold_setAdd_distinct)

lemma newSet_same: "distinct xs \<Longrightarrow> newSet xs = xs"
  using fold_setAdd_same [of "[]" xs] by (simp add: newSet_def)

lemma setAdd_distinct: "distinct xs \<Longrightarrow> distinct (setAdd xs x)"
  by (simp add: setAdd_def)

text \<open>
  C5, as stated: for every prior persisted expansion set, an expand event for a
  category followed by a collapse event for it leaves the set as it was before the
  expand. It does not when the set already held the category's identity: the expand
  changes nothing and the collapse removes it.
\<close>

theorem expand_then_collapse_counterexample:
  "persistedExpansion (constructor (Some [''All''])) = {''All''} \<and>
   persistedExpansion
     (handleDidCollapseElement (TreeNode 101 (CategoryTreeNode ''All'' All_PRType))
        (handleDidExpandElement (TreeNode 101 (CategoryTreeNode ''All'' All_PRType))
           (constructor (Some [''All''])))) = {} \<and>
   persistedExpansion
     (handleDidCollapseElement (TreeNode 101 (CategoryTreeNode ''All'' All_PRType))
        (handleDidExpandElement (TreeNode 101 (CategoryTreeNode ''All'' All_PRType))
           (constructor (Some [''All''])))) \<noteq>
   persistedExpansion (constructor (Some [''All'']))"
  by (simp add: persistedExpansion_def handleDidCollapseElement_def handleDidExpandElement_def
      updateExpandedQueries_def constructor_def newSet_def setAdd_def setDelete_def)

text \<open>
  C5, amended: for every category node and every prior persisted expansion set, an
  expand event followed by a collapse event for the node leaves the prior set without
  the node's identity, which is the prior set when it did not hold that identity; and
  two expand events in a row leave the provider as one does.
\<close>

theorem expand_then_collapse:
  assumes "kind q = CategoryTreeNode ident type"
  shows "persistedExpansion (handleDidCollapseElement q (handleDidExpandElement q s)) =
           persistedExpansion s - {ident} \<and>
         (ident \<notin> persistedExpansion s \<longrightarrow>
            persistedExpansion (handleDidCollapseElement q (handleDidExpandElement q s)) =
              persistedExpansion s) \<and>
         handleDidExpandElement q (handleDidExpandElement q s) = handleDidExpandElement q s"
proof -
  define prior where
    "prior = newSet (case expandedQueriesState s of None \<Rightarrow> [] | Some xs \<Rightarrow> xs)"
  have p: "set prior = persistedExpansion s"
    by (simp add: prior_def persistedExpansion_def)
  have ex: "handleDidExpandElement q s = s\<lparr>expandedQueriesState := Some (setAdd prior ident)\<rparr>"
    using assms
    by (simp add: handleDidExpandElement_def updateExpandedQueries_def Let_def prior_def)
  have d: "distinct (setAdd prior ident)"
    by (simp add: setAdd_distinct prior_def)
  have co: "persistedExpansion (handleDidCollapseElement q (handleDidExpandElement q s)) =
      persistedExpansion s - {ident}"
    using assms p
    by (auto simp: ex handleDidCollapseElement_def updateExpandedQueries_def Let_def
        persistedExpansion_def setDelete_def setAdd_def)
  have twice: "handleDidExpandElement q (handleDidExpandElement q s) =
      handleDidExpandElement q s"
    using assms d
    by (simp add: ex handleDidExpandElement_def updateExpandedQueries_def Let_def newSet_same
        setAdd_def)
  show ?thesis
    using co twice by auto
qed

theorem expand_then_collapse_witness:
  "persistedExpansion
     (handleDidCollapseElement (TreeNode 100 (CategoryTreeNode ''Mine'' Query))
        (handleDidExpandElement (TreeNode 100 (CategoryTreeNode ''Mine'' Query))
           (constructor (Some [''All''])))) = {''All''} \<and>
   expandedQueriesState
     (handleDidExpandElement (TreeNode 100 (CategoryTreeNode ''Mine'' Query))
        (handleDidExpandElement (TreeNode 100 (CategoryTreeNode ''Mine'' Query))
           (constructor (Some [''All''])))) = Some [''All'', ''Mine'']"
  using expand_then_collapse
    [of "TreeNode 100 (CategoryTreeNode ''Mine'' Query)" "''Mine''" Query
        "constructor (Some [''All''])"]
  by (simp add: persistedExpansion_def handleDidExpandElement_def
      updateExpandedQueries_def constructor_def newSet_def setAdd_def)

end
